theory Spec2Isabelle
  imports Complex_Main "HOL-Library.AList" "HOL-Library.List_Lexorder" "HOL-Library.Char_ord"
begin

section \<open>Python values used by both extraction scripts\<close>

text \<open>
  The two scripts (\<^verbatim>\<open>convert_india_spices_to_json.py\<close> and
  \<^verbatim>\<open>generate_distributors_json.py\<close>) work on spreadsheet cells that pandas hands over
  as Python scalars. A cell is modelled as a tagged value; \<open>NaN\<close> is the empty cell
  (\<^verbatim>\<open>pd.isna\<close>). A float is the real number it stands for; infinities are not
  modelled. Exceptions are values of \<open>py_error\<close>; a function that can raise returns
  \<open>py_error + 'a\<close>.
\<close>

datatype py_error = FileNotFoundError | WorksheetNotFound | IndexError | ValueError

datatype cell = NaN | Text string | IntC int | FloatC real | BoolC bool

type_synonym grid = "cell list list"

text \<open>
  The parts of the Python runtime that are not reconstructed here are parameters:
  \<open>repr_float\<close> is \<^verbatim>\<open>str\<close> on a float; \<open>float_of_str\<close> and \<open>float_of_int\<close> are \<^verbatim>\<open>float\<close> on
  a string and on an integer (\<open>None\<close> when it raises); \<open>fdiv\<close>, \<open>fpow\<close>, \<open>fsub\<close> and
  \<open>fmul\<close> are the float operations \<^verbatim>\<open>/\<close>, \<^verbatim>\<open>**\<close>, \<^verbatim>\<open>-\<close> and \<^verbatim>\<open>*\<close>, each with the rounding
  of the machine format; \<open>round2\<close> is \<^verbatim>\<open>round(x, 2)\<close>. The sums and quotients of the
  market shares are the exception: they are computed in the real numbers.
\<close>

record runtime =
  repr_float :: "real \<Rightarrow> string"
  float_of_str :: "string \<Rightarrow> real option"
  float_of_int :: "int \<Rightarrow> real option"
  fdiv :: "real \<Rightarrow> real \<Rightarrow> real"
  fpow :: "real \<Rightarrow> real \<Rightarrow> real"
  fsub :: "real \<Rightarrow> real \<Rightarrow> real"
  fmul :: "real \<Rightarrow> real \<Rightarrow> real"
  round2 :: "real \<Rightarrow> real"

definition notna :: "cell \<Rightarrow> bool" where
  "notna c = (c \<noteq> NaN)"

text \<open>Truth value of a cell (\<^verbatim>\<open>bool(x)\<close>): a float NaN is true, zero and empty text are false.\<close>

fun truthy :: "cell \<Rightarrow> bool" where
  "truthy NaN = True"
| "truthy (Text s) = (s \<noteq> [])"
| "truthy (IntC n) = (n \<noteq> 0)"
| "truthy (FloatC r) = (r \<noteq> 0)"
| "truthy (BoolC b) = b"

subsection \<open>Strings\<close>

text \<open>
  A character is a code point below 256 (Latin-1); text with other code points is
  outside the model. On this range \<open>is_space\<close> holds of the characters that
  \<^verbatim>\<open>str.strip()\<close> and \<^verbatim>\<open>int\<close> drop (the ASCII white space, \<^verbatim>\<open>U+0085\<close> and \<^verbatim>\<open>U+00A0\<close>),
  \<open>isdigit_char\<close> of the characters that \<^verbatim>\<open>str.isdigit()\<close> accepts (the decimal digits and
  the superscripts \<^verbatim>\<open>U+00B2\<close>, \<^verbatim>\<open>U+00B3\<close>, \<^verbatim>\<open>U+00B9\<close>), and \<open>lower_char\<close> maps the
  upper-case letters, \<^verbatim>\<open>A\<close> to \<^verbatim>\<open>Z\<close> and \<^verbatim>\<open>U+00C0\<close> to \<^verbatim>\<open>U+00DE\<close> without \<^verbatim>\<open>U+00D7\<close>, as
  \<^verbatim>\<open>str.lower()\<close> does.
\<close>

definition is_space :: "char \<Rightarrow> bool" where
  "is_space c = (c \<in> set [CHR 0x09, CHR 0x0A, CHR 0x0B, CHR 0x0C, CHR 0x0D,
                           CHR 0x1C, CHR 0x1D, CHR 0x1E, CHR 0x1F, CHR 0x20,
                           CHR 0x85, CHR 0xA0])"

definition strip :: "string \<Rightarrow> string" where
  "strip s = rev (dropWhile is_space (rev (dropWhile is_space s)))"

text \<open>\<^verbatim>\<open>s.lstrip('>')\<close> and \<^verbatim>\<open>s.count('>')\<close>.\<close>

definition lstrip_gt :: "string \<Rightarrow> string" where
  "lstrip_gt s = dropWhile (\<lambda>c. c = CHR ''>'') s"

definition count_gt :: "string \<Rightarrow> nat" where
  "count_gt s = length (filter (\<lambda>c. c = CHR ''>'') s)"

definition startswith :: "string \<Rightarrow> string \<Rightarrow> bool" where
  "startswith s p = (take (length p) s = p)"

text \<open>\<^verbatim>\<open>sub in s\<close> on strings.\<close>

fun contains :: "string \<Rightarrow> string \<Rightarrow> bool" where
  "contains sub [] = (sub = [])"
| "contains sub (c # cs) = (take (length sub) (c # cs) = sub \<or> contains sub cs)"

definition upper_letters :: string where
  "upper_letters = ''ABCDEFGHIJKLMNOPQRSTUVWXYZ'' @
     [CHR 0xC0, CHR 0xC1, CHR 0xC2, CHR 0xC3, CHR 0xC4, CHR 0xC5, CHR 0xC6, CHR 0xC7,
      CHR 0xC8, CHR 0xC9, CHR 0xCA, CHR 0xCB, CHR 0xCC, CHR 0xCD, CHR 0xCE, CHR 0xCF,
      CHR 0xD0, CHR 0xD1, CHR 0xD2, CHR 0xD3, CHR 0xD4, CHR 0xD5, CHR 0xD6, CHR 0xD8,
      CHR 0xD9, CHR 0xDA, CHR 0xDB, CHR 0xDC, CHR 0xDD, CHR 0xDE]"

definition lower_letters :: string where
  "lower_letters = ''abcdefghijklmnopqrstuvwxyz'' @
     [CHR 0xE0, CHR 0xE1, CHR 0xE2, CHR 0xE3, CHR 0xE4, CHR 0xE5, CHR 0xE6, CHR 0xE7,
      CHR 0xE8, CHR 0xE9, CHR 0xEA, CHR 0xEB, CHR 0xEC, CHR 0xED, CHR 0xEE, CHR 0xEF,
      CHR 0xF0, CHR 0xF1, CHR 0xF2, CHR 0xF3, CHR 0xF4, CHR 0xF5, CHR 0xF6, CHR 0xF8,
      CHR 0xF9, CHR 0xFA, CHR 0xFB, CHR 0xFC, CHR 0xFD, CHR 0xFE]"

definition lower_char :: "char \<Rightarrow> char" where
  "lower_char c =
     (case map_of (zip upper_letters lower_letters) c of Some d \<Rightarrow> d | None \<Rightarrow> c)"

definition lower :: "string \<Rightarrow> string" where
  "lower s = map lower_char s"

definition replace_space_underscore :: "string \<Rightarrow> string" where
  "replace_space_underscore s = map (\<lambda>c. if c = CHR '' '' then CHR ''_'' else c) s"

definition is_digit :: "char \<Rightarrow> bool" where
  "is_digit c = (c \<in> set ''0123456789'')"

definition isdigit_char :: "char \<Rightarrow> bool" where
  "isdigit_char c = (is_digit c \<or> c \<in> set [CHR 0xB2, CHR 0xB3, CHR 0xB9])"

definition isdigit :: "string \<Rightarrow> bool" where
  "isdigit s = (s \<noteq> [] \<and> list_all isdigit_char s)"

definition digit_val :: "char \<Rightarrow> nat" where
  "digit_val c = length (takeWhile (\<lambda>d. d \<noteq> c) ''0123456789'')"

definition digit_char :: "nat \<Rightarrow> char" where
  "digit_char d = ''0123456789'' ! d"

fun str_nat :: "nat \<Rightarrow> string" where
  "str_nat n = (if n < 10 then [digit_char n] else str_nat (n div 10) @ [digit_char (n mod 10)])"

declare str_nat.simps [simp del]

definition str_int :: "int \<Rightarrow> string" where
  "str_int i = (if i < 0 then CHR ''-'' # str_nat (nat (- i)) else str_nat (nat i))"

text \<open>\<^verbatim>\<open>str(x)\<close> on a cell value.\<close>

fun py_str :: "runtime \<Rightarrow> cell \<Rightarrow> string" where
  "py_str rt NaN = ''nan''"
| "py_str rt (Text s) = s"
| "py_str rt (IntC n) = str_int n"
| "py_str rt (FloatC r) = repr_float rt r"
| "py_str rt (BoolC b) = (if b then ''True'' else ''False'')"

text \<open>
  \<^verbatim>\<open>int(s)\<close> on a string: surrounding whitespace, an optional sign, then decimal digits
  in which single underscores may separate digits. \<open>None\<close> stands for \<^verbatim>\<open>ValueError\<close>.
\<close>

fun digits_ok :: "string \<Rightarrow> bool" where
  "digits_ok [] = False"
| "digits_ok [c] = is_digit c"
| "digits_ok (c # d # r) =
     (is_digit c \<and> (if d = CHR ''_'' then digits_ok r else digits_ok (d # r)))"

definition nat_of_digits :: "string \<Rightarrow> nat" where
  "nat_of_digits s = foldl (\<lambda>a c. 10 * a + digit_val c) 0 (filter is_digit s)"

definition int_of_str :: "string \<Rightarrow> int option" where
  "int_of_str s =
     (let t = strip s;
          neg = (t \<noteq> [] \<and> hd t = CHR ''-'');
          body = (if t \<noteq> [] \<and> (hd t = CHR ''-'' \<or> hd t = CHR ''+'') then tl t else t)
      in if digits_ok body
         then Some (if neg then - int (nat_of_digits body) else int (nat_of_digits body))
         else None)"

text \<open>\<^verbatim>\<open>int(x)\<close> truncates a float toward zero.\<close>

definition trunc :: "real \<Rightarrow> int" where
  "trunc r = (if 0 \<le> r then \<lfloor>r\<rfloor> else \<lceil>r\<rceil>)"

fun py_int :: "cell \<Rightarrow> py_error + int" where
  "py_int NaN = Inl ValueError"
| "py_int (Text s) = (case int_of_str s of None \<Rightarrow> Inl ValueError | Some n \<Rightarrow> Inr n)"
| "py_int (IntC n) = Inr n"
| "py_int (FloatC r) = Inr (trunc r)"
| "py_int (BoolC b) = Inr (if b then 1 else 0)"

subsection \<open>Dictionaries\<close>

text \<open>
  A Python dict is an association list in insertion order: \<^const>\<open>AList.update\<close> overwrites
  the value of a present key in place and appends a new key, as assignment does.
\<close>

definition dict_update :: "('k \<times> 'v) list \<Rightarrow> ('k \<times> 'v) list \<Rightarrow> ('k \<times> 'v) list" where
  "dict_update d new = fold (\<lambda>(k, v). AList.update k v) new d"

definition setdefault :: "'k \<Rightarrow> 'v \<Rightarrow> ('k \<times> 'v) list \<Rightarrow> ('k \<times> 'v) list" where
  "setdefault k v d = (case map_of d k of None \<Rightarrow> d @ [(k, v)] | Some _ \<Rightarrow> d)"

section \<open>The distributor pipeline (generate\_distributors\_json.py)\<close>

subsection \<open>Column-to-field mappings\<close>

definition base_mapping :: "(nat \<times> string) list" where
  "base_mapping =
     [(0, ''s_no''), (1, ''company_name''), (2, ''year_established''),
      (3, ''headquarters_emirate''), (4, ''cities_regions_covered''),
      (5, ''ownership_type''), (6, ''business_type''), (7, ''no_of_employees''),
      (8, ''key_contact_person''), (9, ''designation_role''), (10, ''email_address''),
      (11, ''phone_whatsapp''), (12, ''linkedin_profile''), (13, ''website_url'')]"

definition advance_mapping :: "(nat \<times> string) list" where
  "advance_mapping = dict_update base_mapping
     [(8, ''turnover_scale''), (9, ''key_contact_person''), (10, ''designation_role''),
      (11, ''email_address''), (12, ''phone_whatsapp''), (13, ''linkedin_profile''),
      (14, ''website_url''), (15, ''core_product_categories''), (16, ''specialty_focus''),
      (17, ''price_segment'')]"

definition premium_mapping :: "(nat \<times> string) list" where
  "premium_mapping = dict_update advance_mapping
     [(18, ''key_brands_represented''), (19, ''exclusive_partnerships''),
      (20, ''duration_partnerships''), (21, ''retail_chains''), (22, ''pharmacies''),
      (23, ''spas_salons_clinics''), (24, ''ecommerce_platforms''),
      (25, ''channel_strength''), (26, ''distribution_type''), (27, ''emirates_served''),
      (28, ''regional_extensions''), (29, ''warehouse_logistics''),
      (30, ''delivery_storage''), (31, ''competitive_benchmarking''),
      (32, ''additional_comments'')]"

definition get_module_field_mapping :: "string \<Rightarrow> (nat \<times> string) list" where
  "get_module_field_mapping module_name =
     (if contains ''Standard'' module_name then base_mapping
      else if contains ''Advance'' module_name then advance_mapping
      else if contains ''Premium'' module_name then premium_mapping
      else base_mapping)"

subsection \<open>Rows to distributor records\<close>

datatype jvalue = JNull | JStr string | JInt int

type_synonym distributor = "(string \<times> jvalue) list"

text \<open>The loop over \<^verbatim>\<open>field_mapping.items()\<close> that fills one record.\<close>

fun map_fields :: "runtime \<Rightarrow> cell list \<Rightarrow> (nat \<times> string) list \<Rightarrow> distributor \<Rightarrow> distributor" where
  "map_fields rt row [] d = d"
| "map_fields rt row ((col_idx, field_name) # rest) d =
     (if col_idx > 0 then
        (let v = (if col_idx < length row then row ! col_idx else NaN) in
         if notna v \<and> strip (py_str rt v) \<noteq> ''''
         then map_fields rt row rest (AList.update field_name (JStr (strip (py_str rt v))) d)
         else map_fields rt row rest (AList.update field_name JNull d))
      else map_fields rt row rest d)"

definition jtruthy :: "jvalue option \<Rightarrow> bool" where
  "jtruthy v = (case v of Some (JStr s) \<Rightarrow> s \<noteq> [] | Some (JInt n) \<Rightarrow> n \<noteq> 0 | _ \<Rightarrow> False)"

text \<open>
  One iteration of the row loop: \<open>Inr None\<close> when the row is skipped or dropped for want
  of a company name, \<open>Inl\<close> when the iteration raises.
\<close>

definition distributor_of_row ::
  "runtime \<Rightarrow> string \<Rightarrow> (nat \<times> string) list \<Rightarrow> nat \<Rightarrow> cell list \<Rightarrow> py_error + distributor option" where
  "distributor_of_row rt sheet_name field_mapping idx row =
     (case row of
        [] \<Rightarrow> Inl IndexError
      | c0 # _ \<Rightarrow>
          if \<not> notna c0 \<or> strip (py_str rt c0) = '''' then Inr None
          else
            (case (if notna c0 then py_int c0 else Inr (int idx)) of
               Inl e \<Rightarrow> Inl e
             | Inr n \<Rightarrow>
                 (case (if notna c0 \<and> isdigit (py_str rt c0)
                        then map_sum id JInt (py_int c0) else Inr JNull) of
                    Inl e \<Rightarrow> Inl e
                  | Inr s_no \<Rightarrow>
                      (let d0 = [(''id'', JStr (replace_space_underscore (lower sheet_name)
                                               @ ''_'' @ str_int n)),
                                 (''module'', JStr sheet_name),
                                 (''s_no'', s_no)];
                           d = map_fields rt row field_mapping d0
                       in if jtruthy (map_of d ''company_name'') then Inr (Some d)
                          else Inr None))))"

fun process_rows ::
  "runtime \<Rightarrow> string \<Rightarrow> (nat \<times> string) list \<Rightarrow> nat \<Rightarrow> grid \<Rightarrow> py_error + distributor list" where
  "process_rows rt sheet_name fm idx [] = Inr []"
| "process_rows rt sheet_name fm idx (row # rest) =
     (case distributor_of_row rt sheet_name fm idx row of
        Inl e \<Rightarrow> Inl e
      | Inr d \<Rightarrow>
          (case process_rows rt sheet_name fm (Suc idx) rest of
             Inl e \<Rightarrow> Inl e
           | Inr ds \<Rightarrow> Inr (case d of None \<Rightarrow> ds | Some x \<Rightarrow> x # ds)))"

text \<open>
  The spreadsheet reader is a black box. A sheet is what \<^verbatim>\<open>pd.read_excel\<close> returns for it:
  \<open>raw\<close> with \<^verbatim>\<open>header=None\<close> (a grid of cells), \<open>table\<close> with \<^verbatim>\<open>header=0\<close> (column
  labels and the rows below them). A column label is a string or a number; Python
  treats the labels \<^verbatim>\<open>2020\<close> and \<^verbatim>\<open>2020.0\<close> as the same key. A workbook on disk is
  \<open>None\<close> when the file does not exist, else its sheets by name.
\<close>

datatype label = LStr string | LNum real

record frame =
  columns :: "label list"
  data_rows :: "cell list list"

record sheet =
  raw :: grid
  table :: frame

type_synonym workbook = "(string \<times> sheet) list"

definition read_excel :: "workbook option \<Rightarrow> string \<Rightarrow> py_error + sheet" where
  "read_excel file sheet_name =
     (case file of
        None \<Rightarrow> Inl FileNotFoundError
      | Some wb \<Rightarrow> (case map_of wb sheet_name of None \<Rightarrow> Inl WorksheetNotFound | Some sh \<Rightarrow> Inr sh))"

definition extract_distributors_from_sheet ::
  "runtime \<Rightarrow> workbook option \<Rightarrow> string \<Rightarrow> py_error + distributor list" where
  "extract_distributors_from_sheet rt file sheet_name =
     (case read_excel file sheet_name of
        Inl e \<Rightarrow> Inl e
      | Inr sh \<Rightarrow>
          (let df = raw sh in
           if length df \<le> 4 then Inl IndexError
           else process_rows rt sheet_name (get_module_field_mapping sheet_name) 5 (drop 5 df)))"

subsection \<open>Section manifest and the top-level run\<close>

definition get_module_sections :: "string \<Rightarrow> (string \<times> string list) list" where
  "get_module_sections module_name =
     (let sections0 =
            [(''company_information'',
                [''company_name'', ''year_established'', ''headquarters_emirate'',
                 ''cities_regions_covered'', ''ownership_type'', ''business_type'',
                 ''no_of_employees'']),
             (''contact_details'',
                [''key_contact_person'', ''designation_role'', ''email_address'',
                 ''phone_whatsapp'', ''linkedin_profile'', ''website_url''])];
          sections1 =
            (if contains ''Advance'' module_name \<or> contains ''Premium'' module_name
             then AList.update ''product_portfolio''
                    [''core_product_categories'', ''specialty_focus'', ''price_segment'']
                    (AList.map_entry ''company_information'' (\<lambda>l. l @ [''turnover_scale''])
                       sections0)
             else sections0)
      in if contains ''Premium'' module_name
         then dict_update sections1
                [(''brands_distributed'',
                    [''key_brands_represented'', ''exclusive_partnerships'',
                     ''duration_partnerships'']),
                 (''distribution_channels'',
                    [''retail_chains'', ''pharmacies'', ''spas_salons_clinics'',
                     ''ecommerce_platforms'', ''channel_strength'', ''distribution_type'']),
                 (''regional_operational_coverage'',
                    [''emirates_served'', ''regional_extensions'', ''warehouse_logistics'',
                     ''delivery_storage'']),
                 (''cmi_insights'', [''competitive_benchmarking'', ''additional_comments''])]
         else sections1)"

definition modules :: "string list" where
  "modules = [''Module 1 - Standard'', ''Module 2 - Advance'', ''Module 3 - Premium'']"

text \<open>
  What a run leaves behind: the document written to the output path (\<open>None\<close> when
  nothing was written) and the error lines it printed. Progress lines are not modelled.
\<close>

datatype message =
    ErrorExtracting string py_error
  | ErrorConverting py_error
  | FileNotFoundMessage

record 'd run =
  written :: "'d option"
  console :: "message list"

text \<open>
  The result document of the distributor run. The static \<^verbatim>\<open>module_info\<close> table and the
  \<^verbatim>\<open>generated_at\<close> timestamp of the source's metadata are left out.
\<close>

record distributors_doc =
  source_file :: string
  module_names :: "string list"
  data :: "(string \<times> distributor list) list"
  sections :: "(string \<times> (string \<times> string list) list) list"

text \<open>
  One iteration of the loop over the modules, with its \<^verbatim>\<open>try\<close>/\<^verbatim>\<open>except\<close>: a module whose
  extraction raises gets an empty list and an empty manifest, and the loop goes on.
\<close>

definition extract_module ::
  "runtime \<Rightarrow> workbook option \<Rightarrow> string \<Rightarrow> distributors_doc \<times> message list
     \<Rightarrow> distributors_doc \<times> message list" where
  "extract_module rt file module_name st =
     (case st of (result, out) \<Rightarrow>
        (case extract_distributors_from_sheet rt file module_name of
           Inr distributors \<Rightarrow>
             (result\<lparr>data := AList.update module_name distributors (data result),
                     sections := AList.update module_name (get_module_sections module_name) (sections result)\<rparr>,
              out)
         | Inl e \<Rightarrow>
             (result\<lparr>data := AList.update module_name [] (data result),
                     sections := AList.update module_name [] (sections result)\<rparr>,
              out @ [ErrorExtracting module_name e])))"

definition generate_distributors_json ::
  "runtime \<Rightarrow> string \<Rightarrow> workbook option \<Rightarrow> distributors_doc run" where
  "generate_distributors_json rt excel_name file =
     (let result0 = \<lparr>source_file = excel_name, module_names = modules, data = [], sections = []\<rparr>;
          st = fold (extract_module rt file) modules (result0, [])
      in \<lparr>written = Some (fst st), console = snd st\<rparr>)"

section \<open>The market-data pipeline (convert\_india\_spices\_to\_json.py)\<close>

subsection \<open>Metadata from the Parameters sheet\<close>

datatype mvalue = MStr string | MBool bool | MInt int | MList "int list"

type_synonym metadata = "(string \<times> mvalue) list"

text \<open>The \<^verbatim>\<open>if\<close>/\<^verbatim>\<open>elif\<close> chain on the key; \<open>v\<close> is \<^verbatim>\<open>str(value).strip()\<close>.\<close>

definition assign_metadata :: "string \<Rightarrow> string \<Rightarrow> metadata \<Rightarrow> metadata" where
  "assign_metadata key v md =
     (if contains ''Report Title'' key then AList.update ''market_name'' (MStr v) md
      else if contains ''Market Type'' key then AList.update ''market_type'' (MStr v) md
      else if contains ''Industry Type'' key then AList.update ''industry'' (MStr v) md
      else if contains ''Value Currency'' key then AList.update ''currency'' (MStr v) md
      else if contains ''Value Unit'' key then AList.update ''value_unit'' (MStr v) md
      else if contains ''Volume Unit'' key then AList.update ''volume_unit'' (MStr v) md
      else if contains ''Value'' key \<and> \<not> contains ''Currency'' key
        then AList.update ''has_value'' (MBool (lower v = ''yes'')) md
      else if contains ''Volume'' key \<and> \<not> contains ''Unit'' key
        then AList.update ''has_volume'' (MBool (lower v = ''yes'')) md
      else md)"

text \<open>One iteration of the loop over the rows; \<open>key\<close> and \<open>value\<close> are \<open>None\<close> as in the source.\<close>

definition metadata_row :: "runtime \<Rightarrow> cell list \<Rightarrow> metadata \<Rightarrow> py_error + metadata" where
  "metadata_row rt row md =
     (case row of
        [] \<Rightarrow> Inl IndexError
      | c0 # _ \<Rightarrow>
          (let key = (if notna c0 then Some (strip (py_str rt c0)) else None);
               value = (if length row > 1 \<and> notna (row ! 1) then Some (row ! 1) else None)
           in case (key, value) of
                (Some k, Some v) \<Rightarrow>
                  if k \<noteq> [] \<and> truthy v then Inr (assign_metadata k (strip (py_str rt v)) md)
                  else Inr md
              | _ \<Rightarrow> Inr md))"

fun metadata_rows :: "runtime \<Rightarrow> grid \<Rightarrow> metadata \<Rightarrow> py_error + metadata" where
  "metadata_rows rt [] md = Inr md"
| "metadata_rows rt (row # rest) md =
     (case metadata_row rt row md of
        Inl e \<Rightarrow> Inl e
      | Inr md' \<Rightarrow> metadata_rows rt rest md')"

definition set_defaults :: "metadata \<Rightarrow> metadata" where
  "set_defaults md =
     (setdefault ''has_volume'' (MBool True)
     (setdefault ''has_value'' (MBool True)
     (setdefault ''volume_unit'' (MStr ''Kilo Tons'')
     (setdefault ''value_unit'' (MStr ''Cr.'')
     (setdefault ''currency'' (MStr ''INR'')
     (setdefault ''industry'' (MStr ''CMFE'')
     (setdefault ''market_type'' (MStr ''Country'')
     (setdefault ''market_name'' (MStr ''India Spices Market'') md))))))))"

definition extract_metadata :: "runtime \<Rightarrow> workbook option \<Rightarrow> py_error + metadata" where
  "extract_metadata rt file =
     (case read_excel file ''Parameters'' of
        Inl e \<Rightarrow> Inl e
      | Inr sh \<Rightarrow>
          (case metadata_rows rt (raw sh) [] of
             Inl e \<Rightarrow> Inl e
           | Inr md \<Rightarrow> Inr (set_defaults md)))"

subsection \<open>Geography hierarchy from the Region sheet\<close>

record geographies =
  global :: "string list"
  regions :: "string list"
  countries :: "(string \<times> string list) list"
  all_geographies :: "string list"

text \<open>
  \<^verbatim>\<open>countries\<close> is a \<^verbatim>\<open>defaultdict(list)\<close>: reading \<^verbatim>\<open>countries[region]\<close> creates the key.
\<close>

definition add_country ::
  "string \<Rightarrow> string \<Rightarrow> (string \<times> string list) list \<Rightarrow> (string \<times> string list) list" where
  "add_country region val_str cs =
     (case map_of cs region of
        None \<Rightarrow> cs @ [(region, [val_str])]
      | Some l \<Rightarrow> if val_str \<in> set l then cs else AList.update region (l @ [val_str]) cs)"

text \<open>The body of the loop over \<^verbatim>\<open>col_idx\<close>; the state is \<^verbatim>\<open>countries\<close> and \<^verbatim>\<open>all_geographies\<close>.\<close>

definition geography_cell ::
  "runtime \<Rightarrow> cell list \<Rightarrow> string list \<Rightarrow> cell list \<Rightarrow> nat
     \<Rightarrow> (string \<times> string list) list \<times> string set
     \<Rightarrow> (string \<times> string list) list \<times> string set" where
  "geography_cell rt first_row rs row col_idx st =
     (case st of (cs, allg) \<Rightarrow>
        (let val = row ! col_idx in
         if notna val then
           (let val_str = strip (py_str rt val) in
            if val_str \<noteq> [] then
              (if col_idx < length first_row then
                 (let region = (if notna (first_row ! col_idx)
                                then Some (strip (py_str rt (first_row ! col_idx))) else None)
                  in case region of
                       Some r \<Rightarrow>
                         if r \<noteq> [] \<and> r \<in> set rs
                         then (add_country r val_str cs, insert val_str allg)
                         else (cs, allg)
                     | None \<Rightarrow> (cs, allg))
               else (cs, allg))
            else (cs, allg))
         else (cs, allg)))"

definition geography_row ::
  "runtime \<Rightarrow> cell list \<Rightarrow> string list \<Rightarrow> cell list
     \<Rightarrow> (string \<times> string list) list \<times> string set
     \<Rightarrow> (string \<times> string list) list \<times> string set" where
  "geography_row rt first_row rs row st =
     fold (geography_cell rt first_row rs row) [1..<length row] st"

definition extract_geography_hierarchy :: "runtime \<Rightarrow> workbook option \<Rightarrow> py_error + geographies" where
  "extract_geography_hierarchy rt file =
     (case read_excel file ''Region'' of
        Inl e \<Rightarrow> Inl e
      | Inr sh \<Rightarrow>
          (let global_geo = [''India''] in
           case raw sh of
             [] \<Rightarrow>
               Inr \<lparr>global = global_geo, regions = [], countries = [],
                    all_geographies = sorted_list_of_set (set global_geo)\<rparr>
           | first_row # rest \<Rightarrow>
               (let rs = map (\<lambda>x. strip (py_str rt x))
                           (filter (\<lambda>x. notna x \<and> strip (py_str rt x) \<noteq> ''India'')
                              (tl first_row));
                    st = fold (geography_row rt first_row rs) rest
                           ([], set global_geo \<union> set rs)
                in Inr \<lparr>global = global_geo, regions = rs, countries = fst st,
                        all_geographies = sorted_list_of_set (snd st)\<rparr>)))"

subsection \<open>Segment hierarchy from the Segmentation sheet\<close>

record segment_info =
  type :: string
  items :: "string set"
  hierarchy :: "(string \<times> string list) list"

text \<open>
  The cells of one column, top to bottom. \<^verbatim>\<open>df.iloc[row_idx, col_idx]\<close> raises
  \<^verbatim>\<open>IndexError\<close> on a row that is too short; pandas frames are rectangular, so this does
  not happen on a sheet the reader returns.
\<close>

fun column_cells :: "grid \<Rightarrow> nat \<Rightarrow> py_error + cell list" where
  "column_cells [] col_idx = Inr []"
| "column_cells (row # rest) col_idx =
     (if col_idx < length row
      then (case column_cells rest col_idx of Inl e \<Rightarrow> Inl e | Inr cs \<Rightarrow> Inr (row ! col_idx # cs))
      else Inl IndexError)"

text \<open>
  The search for the parent: the list holds the cells of the rows \<open>row_idx - 1\<close> down to \<open>0\<close>
  of the column, nearest first.
\<close>

fun find_parent :: "runtime \<Rightarrow> nat \<Rightarrow> cell list \<Rightarrow> string option" where
  "find_parent rt level [] = None"
| "find_parent rt level (prev_value # prevs) =
     (if notna prev_value then
        (let prev_item = strip (py_str rt prev_value) in
         if count_gt prev_item < level then Some (strip (lstrip_gt prev_item))
         else find_parent rt level prevs)
      else find_parent rt level prevs)"

definition append_child ::
  "string \<Rightarrow> string \<Rightarrow> (string \<times> string list) list \<Rightarrow> (string \<times> string list) list" where
  "append_child parent child h =
     (case map_of h parent of
        None \<Rightarrow> h @ [(parent, [child])]
      | Some l \<Rightarrow> AList.update parent (l @ [child]) h)"

text \<open>The body of the loop over \<^verbatim>\<open>row_idx\<close>; the state is \<^verbatim>\<open>items\<close> and \<^verbatim>\<open>hierarchy\<close>.\<close>

definition segment_cell ::
  "runtime \<Rightarrow> cell list \<Rightarrow> nat \<Rightarrow> string list \<times> (string \<times> string list) list
     \<Rightarrow> string list \<times> (string \<times> string list) list" where
  "segment_cell rt col row_idx st =
     (case st of (its, h) \<Rightarrow>
        (let cell_value = col ! row_idx in
         if notna cell_value then
           (let item = strip (py_str rt cell_value) in
            if item \<noteq> [] \<and> \<not> startswith item ''Segmentation'' then
              (let clean_item = strip (lstrip_gt item) in
               if clean_item \<noteq> [] then
                 (let level = count_gt item in
                  if level > 0 then
                    (case find_parent rt level (rev (take row_idx col)) of
                       Some parent \<Rightarrow>
                         if parent \<noteq> [] then (its @ [clean_item], append_child parent clean_item h)
                         else (its @ [clean_item], h)
                     | None \<Rightarrow> (its @ [clean_item], h))
                  else (its @ [clean_item], h))
               else (its, h))
            else (its, h))
         else (its, h)))"

definition segment_column :: "runtime \<Rightarrow> cell list \<Rightarrow> segment_info" where
  "segment_column rt col =
     (case fold (segment_cell rt col) [1..<length col] ([], []) of
        (its, h) \<Rightarrow>
          \<lparr>type = (if h \<noteq> [] then ''hierarchical'' else ''flat''),
           items = set its,
           hierarchy = h\<rparr>)"

text \<open>The loop over \<^verbatim>\<open>enumerate(segment_types)\<close>, from index \<open>seg_type_idx\<close> on.\<close>

fun segment_types_loop ::
  "runtime \<Rightarrow> grid \<Rightarrow> nat \<Rightarrow> string list \<Rightarrow> (string \<times> segment_info) list
     \<Rightarrow> py_error + (string \<times> segment_info) list" where
  "segment_types_loop rt df seg_type_idx [] segments = Inr segments"
| "segment_types_loop rt df seg_type_idx (st # rest) segments =
     (if st = [] \<or> st = ''Segmentation''
      then segment_types_loop rt df (Suc seg_type_idx) rest segments
      else
        (case column_cells df (seg_type_idx + 1) of
           Inl e \<Rightarrow> Inl e
         | Inr col \<Rightarrow>
             segment_types_loop rt df (Suc seg_type_idx) rest
               (AList.update st (segment_column rt col) segments)))"

definition extract_segment_hierarchy ::
  "runtime \<Rightarrow> workbook option \<Rightarrow> py_error + (string \<times> segment_info) list" where
  "extract_segment_hierarchy rt file =
     (case read_excel file ''Segmentation'' of
        Inl e \<Rightarrow> Inl e
      | Inr sh \<Rightarrow>
          (case raw sh of
             [] \<Rightarrow> Inr []
           | first_row # rest \<Rightarrow>
               (let segment_types = map (\<lambda>x. strip (py_str rt x)) (filter notna (tl first_row))
                in segment_types_loop rt (first_row # rest) 0 segment_types [])))"

subsection \<open>Data records from a Master Sheet\<close>

record segment_levels =
  level_1 :: string
  level_2 :: string
  level_3 :: string
  level_4 :: string

record data_record =
  geography :: string
  geography_level :: string
  parent_geography :: "string option"
  segment_type :: string
  segment :: "string option"
  segment_level :: string
  segment_hierarchy :: segment_levels
  time_series :: "(int \<times> real) list"
  cagr :: real
  market_share :: real

text \<open>\<^verbatim>\<open>int(col)\<close> on a column label, and the test for a year column.\<close>

definition int_of_label :: "label \<Rightarrow> int option" where
  "int_of_label col = (case col of LStr s \<Rightarrow> int_of_str s | LNum r \<Rightarrow> Some (trunc r))"

definition year_of_column :: "label \<Rightarrow> int option" where
  "year_of_column col =
     (case int_of_label col of
        Some year \<Rightarrow> if 2000 \<le> year \<and> year \<le> 2100 then Some year else None
      | None \<Rightarrow> None)"

definition year_columns :: "frame \<Rightarrow> int list" where
  "year_columns df = sort (List.map_filter year_of_column (columns df))"

text \<open>\<^verbatim>\<open>row.get(label)\<close>: \<open>None\<close> when the frame has no such column.\<close>

definition row_get :: "label list \<Rightarrow> cell list \<Rightarrow> label \<Rightarrow> cell option" where
  "row_get cols row l = map_of (zip cols row) l"

text \<open>\<^verbatim>\<open>a or b\<close> on optional cells and on optional strings.\<close>

definition or_cell :: "cell option \<Rightarrow> cell option \<Rightarrow> cell option" where
  "or_cell a b = (case a of Some c \<Rightarrow> if truthy c then a else b | None \<Rightarrow> b)"

definition or_str :: "string option \<Rightarrow> string option \<Rightarrow> string option" where
  "or_str a b = (case a of Some s \<Rightarrow> if s \<noteq> [] then a else b | None \<Rightarrow> b)"

definition or_empty :: "string option \<Rightarrow> string" where
  "or_empty a = (case a of Some s \<Rightarrow> s | None \<Rightarrow> [])"

text \<open>\<^verbatim>\<open>str(row[name]).strip() if pd.notna(row.get(name)) else None\<close>.\<close>

definition text_field :: "runtime \<Rightarrow> label list \<Rightarrow> cell list \<Rightarrow> string \<Rightarrow> string option" where
  "text_field rt cols row name =
     (case row_get cols row (LStr name) of
        Some c \<Rightarrow> if notna c then Some (strip (py_str rt c)) else None
      | None \<Rightarrow> None)"

text \<open>\<^verbatim>\<open>float(value)\<close>; \<open>None\<close> when it raises.\<close>

fun py_float :: "runtime \<Rightarrow> cell \<Rightarrow> real option" where
  "py_float rt NaN = None"
| "py_float rt (Text s) = float_of_str rt s"
| "py_float rt (IntC n) = float_of_int rt n"
| "py_float rt (FloatC r) = Some r"
| "py_float rt (BoolC b) = Some (if b then 1 else 0)"

text \<open>The value stored for one year column (the body of the loop over \<^verbatim>\<open>year_columns\<close>).\<close>

definition year_value :: "runtime \<Rightarrow> label list \<Rightarrow> cell list \<Rightarrow> int \<Rightarrow> real" where
  "year_value rt cols row year =
     (let year_str = str_int year;
          v = or_cell (row_get cols row (LStr year_str)) (row_get cols row (LNum (real_of_int year)))
      in case v of
           Some c \<Rightarrow>
             if notna c then (case py_float rt c of Some f \<Rightarrow> f | None \<Rightarrow> 0)
             else 0
         | None \<Rightarrow> 0)"

definition extract_time_series ::
  "runtime \<Rightarrow> label list \<Rightarrow> cell list \<Rightarrow> int list \<Rightarrow> (int \<times> real) list" where
  "extract_time_series rt cols row ycs =
     fold (\<lambda>year ts. AList.update year (year_value rt cols row year) ts) ycs []"

text \<open>\<^verbatim>\<open>time_series.get(year, 0)\<close>.\<close>

definition ts_get :: "(int \<times> real) list \<Rightarrow> int \<Rightarrow> real" where
  "ts_get ts year = (case map_of ts year of Some v \<Rightarrow> v | None \<Rightarrow> 0)"

text \<open>
  The growth rate before rounding (lines 214 to 225), with the float operations of the
  runtime; the comparisons with 0 and the difference of the two years are exact.
\<close>

definition calculate_cagr :: "runtime \<Rightarrow> int list \<Rightarrow> (int \<times> real) list \<Rightarrow> real" where
  "calculate_cagr rt ycs ts =
     (if length ycs \<ge> 2 \<and> ts \<noteq> [] then
        (let first_year = Min (set ycs);
             last_year = Max (set ycs);
             first_value = ts_get ts first_year;
             last_value = ts_get ts last_year
         in if first_value > 0 \<and> last_value > 0 then
              (let years = last_year - first_year in
               if years > 0
               then fmul rt (fsub rt (fpow rt (fdiv rt last_value first_value)
                                              (fdiv rt 1 (real_of_int years))) 1) 100
               else 0)
            else 0)
      else 0)"

text \<open>The loop over the \<^verbatim>\<open>countries\<close> mapping with its \<^verbatim>\<open>break\<close>.\<close>

fun find_region :: "string \<Rightarrow> (string \<times> string list) list \<Rightarrow> string option" where
  "find_region g [] = None"
| "find_region g ((region, countries_list) # rest) =
     (if g \<in> set countries_list then Some region else find_region g rest)"

text \<open>
  Geography level and parent (lines 227 to 246). The hierarchy argument defaults to
  \<^verbatim>\<open>None\<close>; a hierarchy dict with its four keys is never empty, so it is true.
\<close>

definition resolve_geography :: "geographies option \<Rightarrow> string \<Rightarrow> string \<times> string option" where
  "resolve_geography geos g =
     (case geos of
        None \<Rightarrow> (''country'', None)
      | Some gs \<Rightarrow>
          if g \<in> set (global gs) then (''global'', None)
          else if g \<in> set (regions gs)
            then (''region'', (case global gs of [] \<Rightarrow> None | x # _ \<Rightarrow> Some x))
          else (''country'', find_region g (countries gs)))"

text \<open>One iteration of the loop over the rows: \<open>None\<close> when the row is skipped.\<close>

definition record_of_row ::
  "runtime \<Rightarrow> geographies option \<Rightarrow> label list \<Rightarrow> int list \<Rightarrow> cell list \<Rightarrow> data_record option" where
  "record_of_row rt geos cols ycs row =
     (case text_field rt cols row ''Geography'' of
        None \<Rightarrow> None
      | Some g \<Rightarrow>
          if g = [] then None
          else
            (let st = text_field rt cols row ''1st level Segment'';
                 l2 = text_field rt cols row ''2nd level Segment'';
                 l3 = text_field rt cols row ''3rd level Segment'';
                 l4 = text_field rt cols row ''4th level Segment'';
                 ts = extract_time_series rt cols row ycs;
                 geo = resolve_geography geos g
             in Some \<lparr>geography = g,
                      geography_level = fst geo,
                      parent_geography = snd geo,
                      segment_type = or_empty st,
                      segment = or_str (or_str (or_str l4 l3) l2) st,
                      segment_level = (if or_str l3 l4 \<notin> {None, Some []} then ''parent'' else ''leaf''),
                      segment_hierarchy =
                        \<lparr>level_1 = or_empty st, level_2 = or_empty l2,
                         level_3 = or_empty l3, level_4 = or_empty l4\<rparr>,
                      time_series = ts,
                      cagr = round2 rt (calculate_cagr rt ycs ts),
                      market_share = 0\<rparr>))"

text \<open>
  \<^verbatim>\<open>metadata.get('base_year', 2024)\<close>, read as a year: a string is equal to no year
  column, and \<^verbatim>\<open>True\<close> and \<^verbatim>\<open>False\<close> are the integers 1 and 0.
\<close>

definition metadata_base_year :: "metadata \<Rightarrow> int option" where
  "metadata_base_year md =
     (case map_of md ''base_year'' of
        None \<Rightarrow> Some 2024
      | Some (MInt n) \<Rightarrow> Some n
      | Some (MBool b) \<Rightarrow> Some (if b then 1 else 0)
      | Some _ \<Rightarrow> None)"

definition year_total :: "data_record list \<Rightarrow> int \<Rightarrow> real" where
  "year_total records year = sum_list (map (\<lambda>r. ts_get (time_series r) year) records)"

text \<open>The second pass of \<^verbatim>\<open>extract_data_records\<close> (lines 263 to 271): shares as fractions.\<close>

definition base_year_shares :: "int list \<Rightarrow> int option \<Rightarrow> data_record list \<Rightarrow> data_record list" where
  "base_year_shares ycs base_year records =
     (case base_year of
        None \<Rightarrow> records
      | Some y \<Rightarrow>
          if y \<in> set ycs then
            (if year_total records y > 0
             then map (\<lambda>r. r\<lparr>market_share := ts_get (time_series r) y / year_total records y\<rparr>) records
             else records)
          else records)"

text \<open>The records of a frame: everything of \<^verbatim>\<open>extract_data_records\<close> after the read.\<close>

definition records_of_frame ::
  "runtime \<Rightarrow> frame \<Rightarrow> metadata \<Rightarrow> geographies option \<Rightarrow> data_record list" where
  "records_of_frame rt df md geos =
     (let ycs = year_columns df;
          records = List.map_filter (record_of_row rt geos (columns df) ycs) (data_rows df)
      in base_year_shares ycs (metadata_base_year md) records)"

definition extract_data_records ::
  "runtime \<Rightarrow> workbook option \<Rightarrow> string \<Rightarrow> metadata \<Rightarrow> geographies option
     \<Rightarrow> py_error + data_record list" where
  "extract_data_records rt file sheet_name md geos =
     (case read_excel file sheet_name of
        Inl e \<Rightarrow> Inl e
      | Inr sh \<Rightarrow> Inr (records_of_frame rt (table sh) md geos))"


subsection \<open>Assembling the document\<close>

record document =
  doc_metadata :: metadata
  doc_geographies :: geographies
  doc_segments :: "(string \<times> segment_info) list"
  value_matrix :: "data_record list"
  volume_matrix :: "data_record list"

text \<open>\<^verbatim>\<open>sorted(all_years)\<close> for the set of all keys of the value records' time series.\<close>

definition collect_years :: "data_record list \<Rightarrow> int list" where
  "collect_years value_records =
     sort (remdups (concat (map (\<lambda>r. map fst (time_series r)) value_records)))"

definition assemble ::
  "metadata \<Rightarrow> geographies \<Rightarrow> (string \<times> segment_info) list \<Rightarrow> data_record list
     \<Rightarrow> data_record list \<Rightarrow> document" where
  "assemble md geos segments value_records volume_records =
     (let years = collect_years value_records;
          start_year = (if years \<noteq> [] then Min (set years) else 2020);
          base_year = (if 2024 \<in> set years then 2024
                       else (let below = filter (\<lambda>y. y \<le> 2024) years in
                             if below = [] then start_year else Max (set below)));
          forecast_year = (if years \<noteq> [] then Max (set years) else 2032);
          historical_years = filter (\<lambda>y. y \<le> base_year) years;
          forecast_years = filter (\<lambda>y. y > base_year) years
      in \<lparr>doc_metadata =
            dict_update md
              [(''years'', MList years), (''start_year'', MInt start_year),
               (''base_year'', MInt base_year), (''forecast_year'', MInt forecast_year),
               (''historical_years'', MList historical_years),
               (''forecast_years'', MList forecast_years)],
          doc_geographies = geos,
          doc_segments = segments,
          value_matrix = value_records,
          volume_matrix = volume_records\<rparr>)"

text \<open>
  The conversion: five extraction steps, each of which may raise, then the assembly and
  the write to the output path, which is the last effect. The second component is what
  this call wrote.
\<close>

definition convert_india_spices_to_json ::
  "runtime \<Rightarrow> workbook option \<Rightarrow> (py_error + document) \<times> document option" where
  "convert_india_spices_to_json rt file =
     (case extract_metadata rt file of
        Inl e \<Rightarrow> (Inl e, None)
      | Inr md \<Rightarrow>
     (case extract_geography_hierarchy rt file of
        Inl e \<Rightarrow> (Inl e, None)
      | Inr geos \<Rightarrow>
     (case extract_segment_hierarchy rt file of
        Inl e \<Rightarrow> (Inl e, None)
      | Inr segments \<Rightarrow>
     (case extract_data_records rt file ''Master Sheet-Value'' md (Some geos) of
        Inl e \<Rightarrow> (Inl e, None)
      | Inr value_records \<Rightarrow>
     (case extract_data_records rt file ''Master Sheet-Volume'' md (Some geos) of
        Inl e \<Rightarrow> (Inl e, None)
      | Inr volume_records \<Rightarrow>
          (let result = assemble md geos segments value_records volume_records
           in (Inr result, Some result)))))))"

text \<open>The script's entry point: the existence test, then the single \<^verbatim>\<open>try\<close>/\<^verbatim>\<open>except\<close>.\<close>

definition convert_main :: "runtime \<Rightarrow> workbook option \<Rightarrow> document run" where
  "convert_main rt file =
     (case file of
        None \<Rightarrow> \<lparr>written = None, console = [FileNotFoundMessage]\<rparr>
      | Some wb \<Rightarrow>
          (case convert_india_spices_to_json rt file of
             (Inl e, w) \<Rightarrow> \<lparr>written = w, console = [ErrorConverting e]\<rparr>
           | (Inr _, w) \<Rightarrow> \<lparr>written = w, console = []\<rparr>))"

subsection \<open>An example Master Sheet\<close>

text \<open>
  A frame with the year columns 2020 and 2024, one empty cell and one cell whose text is
  not a number, and a runtime that prints a float by its integer part, whose \<^verbatim>\<open>float\<close>
  accepts the integers and the integer literals, and whose float operations are exact.
\<close>

text \<open>Rounding to the nearest hundredth, ties to the even neighbour, of the exact value.\<close>

definition round_half_even :: "real \<Rightarrow> int" where
  "round_half_even x =
     (let f = \<lfloor>x\<rfloor>; d = x - of_int f in
      if d < 1 / 2 then f else if d > 1 / 2 then f + 1 else if even f then f else f + 1)"

definition round2_exact :: "real \<Rightarrow> real" where
  "round2_exact x = real_of_int (round_half_even (x * 100)) / 100"

definition example_runtime :: runtime where
  "example_runtime =
     \<lparr>repr_float = (\<lambda>r. str_int (trunc r) @ ''.0''),
      float_of_str = (\<lambda>s. map_option real_of_int (int_of_str s)),
      float_of_int = (\<lambda>n. Some (real_of_int n)),
      fdiv = (\<lambda>x y. x / y),
      fpow = (\<lambda>x y. x powr y),
      fsub = (\<lambda>x y. x - y),
      fmul = (\<lambda>x y. x * y),
      round2 = round2_exact\<rparr>"


text \<open>A record with a given time series, and the hierarchy of the specification's example.\<close>

definition example_record :: "(int \<times> real) list \<Rightarrow> data_record" where
  "example_record ts =
     \<lparr>geography = ''India'', geography_level = ''global'', parent_geography = None,
      segment_type = ''By Type'', segment = Some ''By Type'', segment_level = ''leaf'',
      segment_hierarchy = \<lparr>level_1 = ''By Type'', level_2 = [], level_3 = [], level_4 = []\<rparr>,
      time_series = ts, cagr = 0, market_share = 0\<rparr>"

definition example_geographies :: geographies where
  "example_geographies =
     \<lparr>global = [''India''], regions = [''North India'', ''South India''],
      countries = [(''North India'', [''Punjab''])],
      all_geographies = [''India'', ''North India'', ''Punjab'', ''South India'']\<rparr>"

subsection \<open>Example workbooks\<close>

text \<open>
  A distributor workbook with a good Standard sheet, an Advance sheet whose data row has
  the text \<^verbatim>\<open>A12\<close> in column 0, and no Premium sheet; and a market workbook whose five
  sheets are all empty.
\<close>

definition example_workbook :: workbook where
  "example_workbook =
     [(''Module 1 - Standard'',
       \<lparr>raw = [[NaN, NaN], [NaN, NaN], [NaN, NaN], [NaN, NaN],
               [Text ''S.No.'', Text ''Company Name''],
               [IntC 1, Text ''Acme Trading'']],
        table = \<lparr>columns = [], data_rows = []\<rparr>\<rparr>),
      (''Module 2 - Advance'',
       \<lparr>raw = [[NaN, NaN], [NaN, NaN], [NaN, NaN], [NaN, NaN],
               [Text ''S.No.'', Text ''Company Name''],
               [Text ''A12'', Text ''Best Beauty'']],
        table = \<lparr>columns = [], data_rows = []\<rparr>\<rparr>)]"

definition empty_workbook :: workbook where
  "empty_workbook =
     [(''Parameters'', \<lparr>raw = [], table = \<lparr>columns = [], data_rows = []\<rparr>\<rparr>),
      (''Region'', \<lparr>raw = [], table = \<lparr>columns = [], data_rows = []\<rparr>\<rparr>),
      (''Segmentation'', \<lparr>raw = [], table = \<lparr>columns = [], data_rows = []\<rparr>\<rparr>),
      (''Master Sheet-Value'', \<lparr>raw = [], table = \<lparr>columns = [], data_rows = []\<rparr>\<rparr>),
      (''Master Sheet-Volume'', \<lparr>raw = [], table = \<lparr>columns = [], data_rows = []\<rparr>\<rparr>)]"

section \<open>Properties of the distributor pipeline\<close>

subsection \<open>The three column mappings\<close>

lemma module_mappings:
  "get_module_field_mapping ''Module 1 - Standard'' = base_mapping"
  "get_module_field_mapping ''Module 2 - Advance'' = advance_mapping"
  "get_module_field_mapping ''Module 3 - Premium'' = premium_mapping"
  by (simp_all add: get_module_field_mapping_def)

lemma advance_mapping_eq:
  "advance_mapping =
     [(0, ''s_no''), (1, ''company_name''), (2, ''year_established''),
      (3, ''headquarters_emirate''), (4, ''cities_regions_covered''),
      (5, ''ownership_type''), (6, ''business_type''), (7, ''no_of_employees''),
      (8, ''turnover_scale''), (9, ''key_contact_person''), (10, ''designation_role''),
      (11, ''email_address''), (12, ''phone_whatsapp''), (13, ''linkedin_profile''),
      (14, ''website_url''), (15, ''core_product_categories''), (16, ''specialty_focus''),
      (17, ''price_segment'')]"
  by (simp add: advance_mapping_def base_mapping_def dict_update_def)

lemma premium_mapping_eq:
  "premium_mapping = advance_mapping @
     [(18, ''key_brands_represented''), (19, ''exclusive_partnerships''),
      (20, ''duration_partnerships''), (21, ''retail_chains''), (22, ''pharmacies''),
      (23, ''spas_salons_clinics''), (24, ''ecommerce_platforms''),
      (25, ''channel_strength''), (26, ''distribution_type''), (27, ''emirates_served''),
      (28, ''regional_extensions''), (29, ''warehouse_logistics''),
      (30, ''delivery_storage''), (31, ''competitive_benchmarking''),
      (32, ''additional_comments'')]"
  unfolding premium_mapping_def dict_update_def by (simp add: advance_mapping_eq)

text \<open>
  Claim C7, as amended. The Premium mapping agrees with the Advance mapping on every
  column of the Advance mapping. The Advance mapping agrees with the Standard mapping on
  the columns 0 to 7 only: the Advance mapping puts \<^verbatim>\<open>turnover_scale\<close> at column 8, and
  every Standard column from 8 to 13 names a different field in the Advance mapping.
\<close>

theorem mappings_shifted_from_column_8:
  "(\<forall>i \<in> dom (map_of (get_module_field_mapping ''Module 2 - Advance'')).
       map_of (get_module_field_mapping ''Module 3 - Premium'') i
         = map_of (get_module_field_mapping ''Module 2 - Advance'') i)
   \<and> (\<forall>i \<in> dom (map_of (get_module_field_mapping ''Module 1 - Standard'')).
       (map_of (get_module_field_mapping ''Module 2 - Advance'') i
          = map_of (get_module_field_mapping ''Module 1 - Standard'') i) \<longleftrightarrow> i < 8)"
proof -
  have p: "\<forall>i \<in> dom (map_of advance_mapping). map_of premium_mapping i = map_of advance_mapping i"
    by (auto simp: premium_mapping_eq map_add_def split: option.splits)
  have d: "dom (map_of base_mapping) = {0, 1, 2, 3, 4, 5, 6, 7, 8, 9, 10, 11, 12, 13}"
    by (simp add: base_mapping_def dom_map_of_conv_image_fst)
  have s: "\<forall>i \<in> {0, 1, 2, 3, 4, 5, 6, 7, 8, 9, 10, 11, 12, 13::nat}.
             (map_of advance_mapping i = map_of base_mapping i) \<longleftrightarrow> i < 8"
    by (simp add: advance_mapping_eq base_mapping_def)
  show ?thesis unfolding module_mappings using p s d by simp
qed

text \<open>
  Claim C7 as stated fails: columns 8 and 9 are not the only ones that differ. Column 10
  is \<^verbatim>\<open>email_address\<close> in the Standard mapping and \<^verbatim>\<open>designation_role\<close> in the Advance
  mapping.
\<close>

theorem standard_advance_differ_at_column_10:
  "map_of (get_module_field_mapping ''Module 1 - Standard'') 10 = Some ''email_address''
  \<and> map_of (get_module_field_mapping ''Module 2 - Advance'') 10 = Some ''designation_role''"
  by (simp add: module_mappings advance_mapping_eq base_mapping_def)


text \<open>The amended statement of C7 at the columns 9 and 7.\<close>

theorem mappings_shifted_from_column_8_witness:
  "map_of (get_module_field_mapping ''Module 3 - Premium'') 9 = Some ''key_contact_person''
  \<and> map_of (get_module_field_mapping ''Module 2 - Advance'') 9 \<noteq> map_of (get_module_field_mapping ''Module 1 - Standard'') 9
  \<and> map_of (get_module_field_mapping ''Module 2 - Advance'') 7 = map_of (get_module_field_mapping ''Module 1 - Standard'') 7"
proof -
  have a: "9 \<in> dom (map_of (get_module_field_mapping ''Module 2 - Advance''))"
    by (simp add: module_mappings advance_mapping_eq)
  have b: "9 \<in> dom (map_of (get_module_field_mapping ''Module 1 - Standard''))"
    by (simp add: module_mappings base_mapping_def)
  have c: "7 \<in> dom (map_of (get_module_field_mapping ''Module 1 - Standard''))"
    by (simp add: module_mappings base_mapping_def)
  have v: "map_of (get_module_field_mapping ''Module 2 - Advance'') 9 = Some ''key_contact_person''"
    by (simp add: module_mappings advance_mapping_eq)
  note t = mappings_shifted_from_column_8
  from bspec [OF conjunct1 [OF t] a] bspec [OF conjunct2 [OF t] b] bspec [OF conjunct2 [OF t] c] v
  show ?thesis by simp
qed

subsection \<open>A text cell in column 0\<close>

lemma py_int_error: "py_int c = Inl e \<Longrightarrow> e = ValueError"
  by (cases c) (auto split: option.splits)

lemma distributor_of_row_error:
  assumes "row \<noteq> []" and "distributor_of_row rt n fm idx row = Inl e"
  shows "e = ValueError"
proof -
  from assms(1) obtain c0 rest where row: "row = c0 # rest" by (cases row) auto
  show ?thesis
  proof (cases "py_int c0")
    case (Inl e')
    with assms(2) row py_int_error [OF Inl] show ?thesis
      by (auto simp: distributor_of_row_def split: if_splits)
  next
    case (Inr k)
    with assms(2) row show ?thesis
      by (auto simp: distributor_of_row_def Let_def split: if_splits)
  qed
qed

lemma distributor_of_row_text:
  assumes "strip s \<noteq> []" and "int_of_str s = None"
  shows "distributor_of_row rt n fm idx (Text s # rest) = Inl ValueError"
  using assms by (simp add: distributor_of_row_def notna_def)

lemma process_rows_text:
  assumes "\<forall>row \<in> set rows. row \<noteq> []"
    and "Text s # rest \<in> set rows" and "strip s \<noteq> []" and "int_of_str s = None"
  shows "process_rows rt n fm idx rows = Inl ValueError"
  using assms(1,2)
proof (induction rows arbitrary: idx)
  case Nil
  then show ?case by simp
next
  case (Cons row rows)
  show ?case
  proof (cases "distributor_of_row rt n fm idx row")
    case (Inl e)
    moreover from Cons.prems(1) have "row \<noteq> []" by simp
    ultimately have "e = ValueError" using distributor_of_row_error by blast
    with Inl show ?thesis by simp
  next
    case (Inr d)
    with distributor_of_row_text [OF assms(3,4)] have "row \<noteq> Text s # rest" by auto
    with Cons.prems(2) have "Text s # rest \<in> set rows" by simp
    moreover from Cons.prems(1) have "\<forall>row \<in> set rows. row \<noteq> []" by simp
    ultimately have "process_rows rt n fm (Suc idx) rows = Inl ValueError"
      by (rule Cons.IH [rotated])
    with Inr show ?thesis by simp
  qed
qed

text \<open>
  Claim C10. On a sheet whose rows are not empty, if some data row (index 5 or more) has
  in column 0 a text that is not blank and that \<^verbatim>\<open>int\<close> rejects, then
  \<^verbatim>\<open>extract_distributors_from_sheet\<close> raises \<^verbatim>\<open>ValueError\<close>: the \<^verbatim>\<open>id\<close> is built with an
  unguarded \<^verbatim>\<open>int\<close>, before the \<^verbatim>\<open>isdigit\<close> guard of \<^verbatim>\<open>s_no\<close> is reached, and no record
  of the sheet is returned.
\<close>

theorem id_of_non_numeric_text_raises:
  assumes "read_excel file sheet_name = Inr sh"
    and "\<forall>row \<in> set (raw sh). row \<noteq> []"
    and "5 \<le> i" and "i < length (raw sh)"
    and "raw sh ! i = Text s # rest"
    and "strip s \<noteq> []" and "int_of_str s = None"
  shows "extract_distributors_from_sheet rt file sheet_name = Inl ValueError"
proof -
  from assms(3,4) have len: "\<not> length (raw sh) \<le> 4" by simp
  from assms(3,4) have "drop 5 (raw sh) ! (i - 5) = raw sh ! i"
    and "i - 5 < length (drop 5 (raw sh))" by simp_all
  with assms(5) have mem: "Text s # rest \<in> set (drop 5 (raw sh))"
    by (metis nth_mem)
  from assms(2) have ne: "\<forall>row \<in> set (drop 5 (raw sh)). row \<noteq> []"
    by (meson in_set_dropD)
  have "process_rows rt sheet_name (get_module_field_mapping sheet_name) 5
          (drop 5 (raw sh)) = Inl ValueError"
    by (rule process_rows_text [OF ne mem assms(6) assms(7)])
  with assms(1) len show ?thesis
    by (simp add: extract_distributors_from_sheet_def Let_def)
qed

text \<open>
  Claim C10 on a sheet with the data rows \<^verbatim>\<open>1, Acme Trading\<close> and \<^verbatim>\<open>A12, Best Beauty\<close>: the
  run raises, although \<^verbatim>\<open>isdigit\<close> is false on \<^verbatim>\<open>A12\<close>.
\<close>

theorem id_of_non_numeric_text_raises_witness:
  "extract_distributors_from_sheet
     example_runtime
     (Some [(''Module 1 - Standard'',
             \<lparr>raw = [[NaN, NaN], [NaN, NaN], [NaN, NaN], [NaN, NaN],
                     [Text ''S.No.'', Text ''Company Name''],
                     [IntC 1, Text ''Acme Trading''],
                     [Text ''A12'', Text ''Best Beauty'']],
              table = \<lparr>columns = [], data_rows = []\<rparr>\<rparr>)])
     ''Module 1 - Standard'' = Inl ValueError
   \<and> isdigit ''A12'' = False"
proof -
  define g :: grid where
    "g = [[NaN, NaN], [NaN, NaN], [NaN, NaN], [NaN, NaN],
          [Text ''S.No.'', Text ''Company Name''],
          [IntC 1, Text ''Acme Trading''],
          [Text ''A12'', Text ''Best Beauty'']]"
  define sh where "sh = \<lparr>raw = g, table = \<lparr>columns = [], data_rows = []\<rparr>\<rparr>"
  have 1: "read_excel (Some [(''Module 1 - Standard'', sh)]) ''Module 1 - Standard'' = Inr sh"
    by (simp add: read_excel_def)
  have 2: "\<forall>row \<in> set (raw sh). row \<noteq> []"
    by (simp add: sh_def g_def)
  have 3: "5 \<le> (6::nat)" by simp
  have 4: "6 < length (raw sh)" by (simp add: sh_def g_def)
  have 5: "raw sh ! 6 = Text ''A12'' # [Text ''Best Beauty'']" by (simp add: sh_def g_def)
  have 6: "strip ''A12'' \<noteq> []"
    by (simp add: strip_def is_space_def)
  have 7: "int_of_str ''A12'' = None"
    by (simp add: int_of_str_def strip_def is_space_def is_digit_def)
  have 8: "isdigit ''A12'' = False"
    by (simp add: isdigit_def isdigit_char_def is_digit_def)
  from id_of_non_numeric_text_raises [OF 1 2 3 4 5 6 7] 8 show ?thesis
    unfolding sh_def g_def by blast
qed

section \<open>Properties of the market-data pipeline\<close>

subsection \<open>Segment hierarchy of an example column\<close>

lemma strip_examples: "strip ''A'' = ''A''" "strip ''>B'' = ''>B''" "strip ''>>C'' = ''>>C''" "strip ''>D'' = ''>D''"
   "strip ''B'' = ''B''" "strip ''C'' = ''C''" "strip ''D'' = ''D''"
  by (simp_all add: strip_def is_space_def)

lemma upt15: "[1..<5] = [1, 2, 3, 4::nat]"
  by (simp add: upt_rec)

lemma example_column:
  "segment_column rt [hdr, Text ''A'', Text ''>B'', Text ''>>C'', Text ''>D''] =
     \<lparr>type = ''hierarchical'', items = {''A'', ''B'', ''C'', ''D''},
      hierarchy = [(''A'', [''B'', ''D'']), (''B'', [''C''])]\<rparr>"
  by (auto simp add: strip_examples segment_column_def segment_cell_def upt15 notna_def startswith_def
       lstrip_gt_def count_gt_def append_child_def Let_def)

text \<open>
  Claim C3. On a Segmentation sheet whose segment-type column holds, in the rows 1 to 4,
  the texts \<^verbatim>\<open>A\<close>, \<^verbatim>\<open>>B\<close>, \<^verbatim>\<open>>>C\<close>, \<^verbatim>\<open>>D\<close>, \<^verbatim>\<open>extract_segment_hierarchy\<close> returns for that
  segment type the hierarchy \<^verbatim>\<open>{"A": ["B", "D"], "B": ["C"]}\<close>, the items \<^verbatim>\<open>A\<close>, \<^verbatim>\<open>B\<close>,
  \<^verbatim>\<open>C\<close>, \<^verbatim>\<open>D\<close> and the type \<^verbatim>\<open>hierarchical\<close>. The header cell \<open>h\<close> names the segment type;
  the cells of column 0 are arbitrary.
\<close>

theorem example_hierarchy:
  assumes "map_of wb ''Segmentation'' = Some sh"
    and "raw sh = [[c0, h], [c1, Text ''A''], [c2, Text ''>B''], [c3, Text ''>>C''], [c4, Text ''>D'']]"
    and "notna h" and "strip (py_str rt h) \<noteq> []" and "strip (py_str rt h) \<noteq> ''Segmentation''"
  shows "extract_segment_hierarchy rt (Some wb) =
           Inr [(strip (py_str rt h),
                 \<lparr>type = ''hierarchical'', items = {''A'', ''B'', ''C'', ''D''},
                  hierarchy = [(''A'', [''B'', ''D'']), (''B'', [''C''])]\<rparr>)]"
  using assms
  by (simp add: extract_segment_hierarchy_def read_excel_def example_column)


text \<open>Claim C3 on the sheet whose segment type is named \<^verbatim>\<open>By Type\<close>.\<close>

theorem example_hierarchy_witness:
  "extract_segment_hierarchy example_runtime
     (Some [(''Segmentation'',
             \<lparr>raw = [[Text ''Segmentation'', Text ''By Type''], [NaN, Text ''A''],
                     [NaN, Text ''>B''], [NaN, Text ''>>C''], [NaN, Text ''>D'']],
              table = \<lparr>columns = [], data_rows = []\<rparr>\<rparr>)])
   = Inr [(''By Type'',
           \<lparr>type = ''hierarchical'', items = {''A'', ''B'', ''C'', ''D''},
            hierarchy = [(''A'', [''B'', ''D'']), (''B'', [''C''])]\<rparr>)]"
proof -
  define rt where "rt = example_runtime"
  define sh where "sh = \<lparr>raw = [[Text ''Segmentation'', Text ''By Type''], [NaN, Text ''A''],
                     [NaN, Text ''>B''], [NaN, Text ''>>C''], [NaN, Text ''>D'']],
              table = \<lparr>columns = [], data_rows = []\<rparr>\<rparr>"
  have 1: "map_of [(''Segmentation'', sh)] ''Segmentation'' = Some sh" by simp
  have 2: "raw sh = [[Text ''Segmentation'', Text ''By Type''], [NaN, Text ''A''],
                     [NaN, Text ''>B''], [NaN, Text ''>>C''], [NaN, Text ''>D'']]"
    by (simp add: sh_def)
  have 3: "notna (Text ''By Type'')" by (simp add: notna_def)
  have s: "strip (py_str rt (Text ''By Type'')) = ''By Type''"
    by (simp add: strip_def is_space_def)
  have 4: "strip (py_str rt (Text ''By Type'')) \<noteq> []" 
    and 5: "strip (py_str rt (Text ''By Type'')) \<noteq> ''Segmentation''"
    unfolding s by simp_all
  from example_hierarchy [OF 1 2 3 4 5, unfolded s] show ?thesis
    unfolding rt_def sh_def .
qed

subsection \<open>What a record keeps of its row\<close>

lemma base_year_shares_mem:
  assumes "r \<in> set (base_year_shares ycs by recs)"
  shows "\<exists>r0 \<in> set recs. \<exists>m. r = r0\<lparr>market_share := m\<rparr>"
proof (cases "r \<in> set recs")
  case True
  then have "r = r\<lparr>market_share := market_share r\<rparr>" by simp
  with True show ?thesis by blast
next
  case False
  with assms show ?thesis
    by (auto simp: base_year_shares_def split: option.splits if_splits)
qed

lemma records_of_frame_mem:
  assumes "r \<in> set (records_of_frame rt df md geos)"
  shows "\<exists>row \<in> set (data_rows df). \<exists>r0 m.
           record_of_row rt geos (columns df) (year_columns df) row = Some r0
           \<and> r = r0\<lparr>market_share := m\<rparr>"
proof -
  from assms obtain r0 m
    where r0: "r0 \<in> set (List.map_filter (record_of_row rt geos (columns df) (year_columns df))
                          (data_rows df))"
      and r: "r = r0\<lparr>market_share := m\<rparr>"
    unfolding records_of_frame_def Let_def
    using base_year_shares_mem by blast
  from r0 obtain row where "row \<in> set (data_rows df)"
    and "record_of_row rt geos (columns df) (year_columns df) row = Some r0"
    by (auto simp: List.map_filter_def)
  with r show ?thesis by blast
qed

lemma record_of_row_fields:
  assumes "record_of_row rt geos cols ycs row = Some r0"
  shows "time_series r0 = extract_time_series rt cols row ycs"
    and "cagr r0 = round2 rt (calculate_cagr rt ycs (time_series r0))"
    and "(geography_level r0, parent_geography r0) = resolve_geography geos (geography r0)"
    and "market_share r0 = 0"
  using assms
  by (auto simp: record_of_row_def Let_def split: option.splits if_splits)

lemma find_region_find:
  "find_region g cs = map_option fst (find (\<lambda>(region, l). g \<in> set l) cs)"
  by (induction cs) auto



subsection \<open>Geography level and parent\<close>

text \<open>
  Claim C4. Every record of \<^verbatim>\<open>extract_data_records\<close> has its level and parent resolved in
  this order: a geography among the global names is \<^verbatim>\<open>global\<close> with no parent; else one
  among the regions is a \<^verbatim>\<open>region\<close> whose parent is the (first) global name; else one
  found in a region's list of countries is a \<^verbatim>\<open>country\<close> whose parent is the first such
  region; else it is a \<^verbatim>\<open>country\<close> with no parent. Without a hierarchy every record is a
  \<^verbatim>\<open>country\<close> with no parent.
\<close>

theorem geography_resolution:
  assumes "r \<in> set (records_of_frame rt df md geos)"
  shows "(geography_level r, parent_geography r) =
     (case geos of
        None \<Rightarrow> (''country'', None)
      | Some gs \<Rightarrow>
          if geography r \<in> set (global gs) then (''global'', None)
          else if geography r \<in> set (regions gs)
            then (''region'', if global gs = [] then None else Some (hd (global gs)))
          else (case find (\<lambda>(region, l). geography r \<in> set l) (countries gs) of
                  Some (region, l) \<Rightarrow> (''country'', Some region)
                | None \<Rightarrow> (''country'', None)))"
proof -
  from records_of_frame_mem [OF assms] obtain row r0 m
    where "record_of_row rt geos (columns df) (year_columns df) row = Some r0"
      and r: "r = r0\<lparr>market_share := m\<rparr>" by blast
  then have "(geography_level r0, parent_geography r0) = resolve_geography geos (geography r0)"
    by (simp add: record_of_row_fields)
  with r have "(geography_level r, parent_geography r) = resolve_geography geos (geography r)"
    by simp
  then show ?thesis
    by (simp add: resolve_geography_def find_region_find
             split: option.splits list.splits prod.splits)
qed


text \<open>
  Claim C4 on the hierarchy with global \<^verbatim>\<open>India\<close>, regions \<^verbatim>\<open>North India\<close> and
  \<^verbatim>\<open>South India\<close>, and \<^verbatim>\<open>Punjab\<close> under \<^verbatim>\<open>North India\<close>, for the four geographies
  \<^verbatim>\<open>Punjab\<close>, \<^verbatim>\<open>North India\<close>, \<^verbatim>\<open>India\<close> and \<^verbatim>\<open>Atlantis\<close>.
\<close>

theorem geography_resolution_witness:
  "map (\<lambda>r. (geography r, geography_level r, parent_geography r))
     (records_of_frame example_runtime
        \<lparr>columns = [LStr ''Geography''],
         data_rows = [[Text ''Punjab''], [Text ''North India''], [Text ''India''], [Text ''Atlantis'']]\<rparr>
        []
        (Some \<lparr>global = [''India''], regions = [''North India'', ''South India''],
               countries = [(''North India'', [''Punjab''])],
               all_geographies = [''India'', ''North India'', ''Punjab'', ''South India'']\<rparr>))
   = [(''Punjab'', ''country'', Some ''North India''),
      (''North India'', ''region'', Some ''India''),
      (''India'', ''global'', None),
      (''Atlantis'', ''country'', None)]"
proof -
  define rt where "rt = example_runtime"
  define df where "df = \<lparr>columns = [LStr ''Geography''],
         data_rows = [[Text ''Punjab''], [Text ''North India''], [Text ''India''], [Text ''Atlantis'']]\<rparr>"
  define gs where "gs = \<lparr>global = [''India''], regions = [''North India'', ''South India''],
               countries = [(''North India'', [''Punjab''])],
               all_geographies = [''India'', ''North India'', ''Punjab'', ''South India'']\<rparr>"
  define recs where "recs = records_of_frame rt df [] (Some gs)"
  have yc: "year_columns df = []"
    by (simp add: df_def year_columns_def List.map_filter_def year_of_column_def int_of_label_def
          int_of_str_def strip_def is_space_def is_digit_def)
  have names: "map geography recs = [''Punjab'', ''North India'', ''India'', ''Atlantis'']"
    unfolding recs_def records_of_frame_def Let_def yc
    by (simp add: df_def List.map_filter_def record_of_row_def text_field_def row_get_def
          notna_def strip_def is_space_def base_year_shares_def metadata_base_year_def Let_def)
  from arg_cong [OF names, of length] have len: "length recs = 4" by simp
  then obtain a b c d where abcd: "recs = [a, b, c, d]"
    by (auto simp: length_Suc_conv numeral_eq_Suc)
  with names have g: "geography a = ''Punjab''" "geography b = ''North India''"
    "geography c = ''India''" "geography d = ''Atlantis''" by simp_all
  note t = geography_resolution [of _ rt df "[]" "Some gs", folded recs_def]
  have "a \<in> set recs" "b \<in> set recs" "c \<in> set recs" "d \<in> set recs"
    by (simp_all add: abcd)
  then have "(geography_level a, parent_geography a) = (''country'', Some ''North India'')"
    and "(geography_level b, parent_geography b) = (''region'', Some ''India'')"
    and "(geography_level c, parent_geography c) = (''global'', None)"
    and "(geography_level d, parent_geography d) = (''country'', None)"
    using t [of a] t [of b] t [of c] t [of d] by (simp_all add: g gs_def)
  with g have "map (\<lambda>r. (geography r, geography_level r, parent_geography r)) recs
   = [(''Punjab'', ''country'', Some ''North India''),
      (''North India'', ''region'', Some ''India''),
      (''India'', ''global'', None),
      (''Atlantis'', ''country'', None)]"
    by (simp add: abcd)
  then show ?thesis unfolding recs_def rt_def df_def gs_def .
qed

subsection \<open>Time series\<close>





subsection \<open>Sums over the records\<close>










subsection \<open>The example Master Sheet, evaluated\<close>









subsection \<open>Growth rate\<close>




subsection \<open>Market shares\<close>




subsection \<open>Falsy values in the Parameters sheet\<close>

lemma metadata_row_falsy:
  assumes "v = IntC 0 \<or> v = FloatC 0 \<or> v = BoolC False"
  shows "metadata_row rt (k # v # rest) md = Inr md"
  using assms by (auto simp: metadata_row_def Let_def notna_def)

lemma metadata_row_empty: "metadata_row rt (k # NaN # rest) md = Inr md"
  by (simp add: metadata_row_def Let_def notna_def)

lemma metadata_rows_append:
  "metadata_rows rt (xs @ ys) md =
     (case metadata_rows rt xs md of Inl e \<Rightarrow> Inl e | Inr md' \<Rightarrow> metadata_rows rt ys md')"
  by (induction xs arbitrary: md) (auto split: sum.splits)

lemma set_defaults_empty:
  "set_defaults [] =
     [(''market_name'', MStr ''India Spices Market''), (''market_type'', MStr ''Country''),
      (''industry'', MStr ''CMFE''), (''currency'', MStr ''INR''), (''value_unit'', MStr ''Cr.''),
      (''volume_unit'', MStr ''Kilo Tons''), (''has_value'', MBool True),
      (''has_volume'', MBool True)]"
  by (simp add: set_defaults_def setdefault_def)

text \<open>
  Claim C9. A Parameters row whose value cell is the number 0, the float 0.0 or
  \<^verbatim>\<open>False\<close> leaves the metadata as it was, and \<^verbatim>\<open>extract_metadata\<close> returns what it returns
  on the sheet where that cell is empty. On a sheet with no other row every field gets
  its default.
\<close>

theorem falsy_value_skipped:
  assumes "v = IntC 0 \<or> v = FloatC 0 \<or> v = BoolC False"
    and "map_of wb ''Parameters'' = Some sh"
    and "map_of wb' ''Parameters'' = Some sh'"
    and "raw sh = rows_before @ [k # v # rest] @ rows_after"
    and "raw sh' = rows_before @ [k # NaN # rest] @ rows_after"
  shows "metadata_row rt (k # v # rest) md = Inr md
       \<and> extract_metadata rt (Some wb) = extract_metadata rt (Some wb')
       \<and> (rows_before = [] \<and> rows_after = []
            \<longrightarrow> extract_metadata rt (Some wb) = Inr (set_defaults []))"
proof -
  have row: "metadata_row rt (k # v # rest) m = metadata_row rt (k # NaN # rest) m" for m
    by (simp add: metadata_row_falsy [OF assms(1)] metadata_row_empty)
  have "metadata_rows rt (raw sh) [] = metadata_rows rt (raw sh') []"
    unfolding assms(4,5) metadata_rows_append
    by (simp add: row split: sum.splits)
  with assms(2,3) have same: "extract_metadata rt (Some wb) = extract_metadata rt (Some wb')"
    by (simp add: extract_metadata_def read_excel_def)
  have "extract_metadata rt (Some wb) = Inr (set_defaults [])"
    if "rows_before = []" "rows_after = []"
    using that assms(2,4)
    by (simp add: extract_metadata_def read_excel_def metadata_row_falsy [OF assms(1)])
  with same metadata_row_falsy [OF assms(1)] show ?thesis by blast
qed

text \<open>
  Claim C9 on the row \<^verbatim>\<open>Volume, False\<close>: \<^verbatim>\<open>has_volume\<close> gets its default \<^verbatim>\<open>True\<close>, whereas the
  text \<^verbatim>\<open>No\<close> in the same cell gives \<^verbatim>\<open>False\<close>.
\<close>

theorem falsy_value_skipped_witness:
  "extract_metadata example_runtime
     (Some [(''Parameters'',
             \<lparr>raw = [[Text ''Volume'', BoolC False]], table = \<lparr>columns = [], data_rows = []\<rparr>\<rparr>)])
   = Inr [(''market_name'', MStr ''India Spices Market''), (''market_type'', MStr ''Country''),
      (''industry'', MStr ''CMFE''), (''currency'', MStr ''INR''), (''value_unit'', MStr ''Cr.''),
      (''volume_unit'', MStr ''Kilo Tons''), (''has_value'', MBool True),
      (''has_volume'', MBool True)]
   \<and> extract_metadata example_runtime
     (Some [(''Parameters'',
             \<lparr>raw = [[Text ''Volume'', Text ''No'']], table = \<lparr>columns = [], data_rows = []\<rparr>\<rparr>)])
   = Inr [(''has_volume'', MBool False),
      (''market_name'', MStr ''India Spices Market''), (''market_type'', MStr ''Country''),
      (''industry'', MStr ''CMFE''), (''currency'', MStr ''INR''), (''value_unit'', MStr ''Cr.''),
      (''volume_unit'', MStr ''Kilo Tons''), (''has_value'', MBool True)]"
proof -
  define sh where "sh = \<lparr>raw = [[Text ''Volume'', BoolC False]], table = \<lparr>columns = [], data_rows = []\<rparr>\<rparr>"
  define sh' where "sh' = \<lparr>raw = [[Text ''Volume'', NaN]], table = \<lparr>columns = [], data_rows = []\<rparr>\<rparr>"
  have 1: "BoolC False = IntC 0 \<or> BoolC False = FloatC 0 \<or> BoolC False = BoolC False" by simp
  have 2: "map_of [(''Parameters'', sh)] ''Parameters'' = Some sh" by simp
  have 3: "map_of [(''Parameters'', sh')] ''Parameters'' = Some sh'" by simp
  have 4: "raw sh = [] @ [Text ''Volume'' # BoolC False # []] @ []" by (simp add: sh_def)
  have 5: "raw sh' = [] @ [Text ''Volume'' # NaN # []] @ []" by (simp add: sh'_def)
  from falsy_value_skipped [OF 1 2 3 4 5, of example_runtime]
  have "extract_metadata example_runtime (Some [(''Parameters'', sh)]) = Inr (set_defaults [])"
    by blast
  moreover have "extract_metadata example_runtime
     (Some [(''Parameters'',
             \<lparr>raw = [[Text ''Volume'', Text ''No'']], table = \<lparr>columns = [], data_rows = []\<rparr>\<rparr>)])
   = Inr [(''has_volume'', MBool False),
      (''market_name'', MStr ''India Spices Market''), (''market_type'', MStr ''Country''),
      (''industry'', MStr ''CMFE''), (''currency'', MStr ''INR''), (''value_unit'', MStr ''Cr.''),
      (''volume_unit'', MStr ''Kilo Tons''), (''has_value'', MBool True)]"
    by (simp add: extract_metadata_def read_excel_def metadata_row_def notna_def strip_def
          is_space_def assign_metadata_def lower_def lower_char_def upper_letters_def lower_letters_def set_defaults_def
          setdefault_def Let_def)
  ultimately show ?thesis unfolding sh_def set_defaults_empty by simp
qed

subsection \<open>Years of the assembled document\<close>

lemma sorted_filter_split:
  fixes xs :: "int list"
  assumes "sorted xs"
  shows "filter (\<lambda>y. y \<le> b) xs @ filter (\<lambda>y. b < y) xs = xs"
  using assms
proof (induction xs)
  case Nil
  then show ?case by simp
next
  case (Cons x xs)
  show ?case
  proof (cases "x \<le> b")
    case True
    with Cons show ?thesis by simp
  next
    case False
    with Cons.prems have "\<forall>y \<in> set xs. b < y" by auto
    then have "filter (\<lambda>y. y \<le> b) xs = []" "filter (\<lambda>y. b < y) xs = xs"
      by (auto simp: filter_empty_conv filter_id_conv)
    with False show ?thesis by simp
  qed
qed

lemma collect_years_set:
  "collect_years vals = sorted_list_of_set (\<Union>r \<in> set vals. fst ` set (time_series r))"
proof -
  have "set (concat (map (\<lambda>r. map fst (time_series r)) vals))
          = (\<Union>r \<in> set vals. fst ` set (time_series r))" by auto
  then show ?thesis
    unfolding collect_years_def
    by (metis sorted_list_of_set_sort_remdups)
qed

lemma sorted_collect_years: "sorted (collect_years vals)"
  by (simp add: collect_years_def)

lemma Max_filter_le:
  fixes xs :: "int list"
  shows "Max (set (filter (\<lambda>y. y \<le> b) xs)) = Max {y \<in> set xs. y \<le> b}"
  by (simp add: Collect_conj_eq Int_commute)

text \<open>
  Claim C5. In the assembled metadata, \<^verbatim>\<open>years\<close> is the sorted set of the keys of the value
  records' time series, whatever the volume records are; \<^verbatim>\<open>start_year\<close> is its minimum
  and \<^verbatim>\<open>forecast_year\<close> its maximum (2020 and 2032 when there is no year);
  \<^verbatim>\<open>base_year\<close> is 2024 if that is a year, else the largest year up to 2024, else
  \<^verbatim>\<open>start_year\<close>; \<^verbatim>\<open>historical_years\<close> are the years up to \<^verbatim>\<open>base_year\<close>, \<^verbatim>\<open>forecast_years\<close>
  the years after it, and the two lists together are \<^verbatim>\<open>years\<close>.
\<close>

theorem assembled_years:
  "let m = map_of (doc_metadata (assemble md geos segs vals vols));
       years = sorted_list_of_set (\<Union>r \<in> set vals. fst ` set (time_series r));
       start = (if years = [] then 2020 else Min (set years));
       base = (if 2024 \<in> set years then 2024
               else if \<exists>y \<in> set years. y \<le> 2024 then Max {y \<in> set years. y \<le> 2024}
               else start)
   in m ''years'' = Some (MList years)
    \<and> m ''start_year'' = Some (MInt start)
    \<and> m ''base_year'' = Some (MInt base)
    \<and> m ''forecast_year'' = Some (MInt (if years = [] then 2032 else Max (set years)))
    \<and> m ''historical_years'' = Some (MList (filter (\<lambda>y. y \<le> base) years))
    \<and> m ''forecast_years'' = Some (MList (filter (\<lambda>y. base < y) years))
    \<and> filter (\<lambda>y. y \<le> base) years @ filter (\<lambda>y. base < y) years = years
    \<and> doc_metadata (assemble md geos segs vals []) = doc_metadata (assemble md geos segs vals vols)"
proof -
  define years where "years = collect_years vals"
  have ys: "sorted_list_of_set (\<Union>r \<in> set vals. fst ` set (time_series r)) = years"
    by (simp add: years_def collect_years_set)
  have below: "(filter (\<lambda>y. y \<le> 2024) years = []) = (\<not> (\<exists>y \<in> set years. y \<le> 2024))"
    by (auto simp: filter_empty_conv)
  have split: "filter (\<lambda>y. y \<le> b) years @ filter (\<lambda>y. b < y) years = years" for b
    by (rule sorted_filter_split) (simp add: years_def sorted_collect_years)
  show ?thesis
    unfolding ys Let_def
    by (simp add: assemble_def Let_def dict_update_def update_conv' years_def [symmetric]
          below Max_filter_le split)
qed

text \<open>
  Claim C5 on value records with the years 2020, 2022 and 2026 and a volume record with
  the year 2030: the base year is 2022, and 2030 is not among the years.
\<close>

theorem assembled_years_witness:
  "map (map_of (doc_metadata
          (assemble [] example_geographies []
             [example_record [(2022, 2), (2020, 1)], example_record [(2020, 4), (2026, 3)]]
             [example_record [(2030, 5)]])))
     [''years'', ''start_year'', ''base_year'', ''forecast_year'', ''historical_years'',
      ''forecast_years'']
   = [Some (MList [2020, 2022, 2026]), Some (MInt 2020), Some (MInt 2022), Some (MInt 2026),
      Some (MList [2020, 2022]), Some (MList [2026])]"
proof -
  define vals where
    "vals = [example_record [(2022, 2), (2020, 1)], example_record [(2020, 4), (2026, 3)]]"
  have y: "sorted_list_of_set (\<Union>r \<in> set vals. fst ` set (time_series r)) = [2020, 2022, 2026]"
    unfolding collect_years_set [symmetric]
    by (simp add: collect_years_def vals_def example_record_def)
  have mx: "Max {y \<in> set [2020, 2022, 2026]. y \<le> (2024::int)} = 2022"
    unfolding Max_filter_le [symmetric] by simp
  note t = assembled_years [of "[]" example_geographies "[]" vals "[example_record [(2030, 5)]]",
      unfolded y Let_def mx]
  from t show ?thesis
    unfolding vals_def [symmetric] by simp
qed

section \<open>Runs of the two pipelines\<close>

lemma convert_written:
  "snd (convert_india_spices_to_json rt file) = Some doc \<longleftrightarrow>
     (\<exists>md geos segs vals vols.
        extract_metadata rt file = Inr md \<and>
        extract_geography_hierarchy rt file = Inr geos \<and>
        extract_segment_hierarchy rt file = Inr segs \<and>
        extract_data_records rt file ''Master Sheet-Value'' md (Some geos) = Inr vals \<and>
        extract_data_records rt file ''Master Sheet-Volume'' md (Some geos) = Inr vols \<and>
        doc = assemble md geos segs vals vols)"
  by (auto simp: convert_india_spices_to_json_def Let_def split: sum.splits)

lemma extract_metadata_missing_file: "extract_metadata rt None = Inl FileNotFoundError"
  by (simp add: extract_metadata_def read_excel_def)

lemma convert_main_written:
  "written (convert_main rt file) = snd (convert_india_spices_to_json rt file)"
  by (cases "file")
     (auto simp: convert_main_def convert_india_spices_to_json_def extract_metadata_missing_file
           split: sum.splits prod.splits)

lemma convert_main_console:
  assumes "written (convert_main rt file) = None"
  shows "console (convert_main rt file) = [FileNotFoundMessage]
       \<or> (\<exists>e. console (convert_main rt file) = [ErrorConverting e])"
  using assms
  by (cases "file")
     (auto simp: convert_main_def convert_india_spices_to_json_def Let_def
           split: sum.splits prod.splits)

lemma distributors_run:
  "\<exists>d. written (generate_distributors_json rt name file) = Some d \<and>
       (\<forall>m \<in> set modules.
          map_of (data d) m =
            Some (case extract_distributors_from_sheet rt file m of
                    Inl e \<Rightarrow> [] | Inr ds \<Rightarrow> ds) \<and>
          map_of (sections d) m =
            Some (case extract_distributors_from_sheet rt file m of
                    Inl e \<Rightarrow> [] | Inr ds \<Rightarrow> get_module_sections m)) \<and>
       console (generate_distributors_json rt name file) =
         concat (map (\<lambda>m. case extract_distributors_from_sheet rt file m of
                              Inl e \<Rightarrow> [ErrorExtracting m e] | Inr ds \<Rightarrow> []) modules)"
  by (simp add: generate_distributors_json_def modules_def extract_module_def Let_def
        update_conv' split: sum.splits)

text \<open>
  Claim C8, as amended. The market-data converter is all or nothing: its run writes a
  document exactly when all five extraction steps return, and the document is then the
  assembly of their results; when nothing is written, one error line is printed. The
  distributor run is not: it always writes its document, in which a module whose
  extraction raised has the empty list of records and the empty section manifest, every
  other module has its records and its manifest, and one error line is printed for each
  module that raised.
\<close>

theorem converter_all_or_nothing:
  "(written (convert_main rt file) = Some doc \<longleftrightarrow>
     (\<exists>md geos segs vals vols.
        extract_metadata rt file = Inr md \<and>
        extract_geography_hierarchy rt file = Inr geos \<and>
        extract_segment_hierarchy rt file = Inr segs \<and>
        extract_data_records rt file ''Master Sheet-Value'' md (Some geos) = Inr vals \<and>
        extract_data_records rt file ''Master Sheet-Volume'' md (Some geos) = Inr vols \<and>
        doc = assemble md geos segs vals vols))
   \<and> (written (convert_main rt file) = None \<longrightarrow>
        console (convert_main rt file) = [FileNotFoundMessage]
        \<or> (\<exists>e. console (convert_main rt file) = [ErrorConverting e]))
   \<and> (\<exists>d. written (generate_distributors_json rt name file) = Some d \<and>
         (\<forall>m \<in> set modules.
            map_of (data d) m =
              Some (case extract_distributors_from_sheet rt file m of
                      Inl e \<Rightarrow> [] | Inr ds \<Rightarrow> ds) \<and>
            map_of (sections d) m =
              Some (case extract_distributors_from_sheet rt file m of
                      Inl e \<Rightarrow> [] | Inr ds \<Rightarrow> get_module_sections m)) \<and>
         console (generate_distributors_json rt name file) =
           concat (map (\<lambda>m. case extract_distributors_from_sheet rt file m of
                                Inl e \<Rightarrow> [ErrorExtracting m e] | Inr ds \<Rightarrow> []) modules))"
  using convert_written [of rt "file" doc] convert_main_console [of rt "file"]
    distributors_run [of rt name "file"]
  unfolding convert_main_written by blast

subsection \<open>The example workbooks, evaluated\<close>

lemma example_module_1:
  "extract_distributors_from_sheet example_runtime (Some example_workbook) ''Module 1 - Standard''
   = Inr [[(''id'', JStr ''module_1_-_standard_1''), (''module'', JStr ''Module 1 - Standard''),
           (''s_no'', JInt 1), (''company_name'', JStr ''Acme Trading''),
           (''year_established'', JNull), (''headquarters_emirate'', JNull),
           (''cities_regions_covered'', JNull), (''ownership_type'', JNull),
           (''business_type'', JNull), (''no_of_employees'', JNull),
           (''key_contact_person'', JNull), (''designation_role'', JNull),
           (''email_address'', JNull), (''phone_whatsapp'', JNull),
           (''linkedin_profile'', JNull), (''website_url'', JNull)]]"
  by (simp add: extract_distributors_from_sheet_def read_excel_def example_workbook_def
        module_mappings base_mapping_def distributor_of_row_def notna_def strip_def is_space_def
        isdigit_def isdigit_char_def is_digit_def str_int_def str_nat.simps digit_char_def lower_def lower_char_def upper_letters_def lower_letters_def
        replace_space_underscore_def jtruthy_def Let_def)

lemma example_module_2:
  "extract_distributors_from_sheet example_runtime (Some example_workbook) ''Module 2 - Advance''
   = Inl ValueError"
  by (simp add: extract_distributors_from_sheet_def read_excel_def example_workbook_def
        distributor_of_row_def notna_def strip_def is_space_def int_of_str_def is_digit_def Let_def)

lemma example_module_3:
  "extract_distributors_from_sheet example_runtime (Some example_workbook) ''Module 3 - Premium''
   = Inl WorksheetNotFound"
  by (simp add: extract_distributors_from_sheet_def read_excel_def example_workbook_def)

lemma empty_workbook_steps:
  "extract_metadata example_runtime (Some empty_workbook) = Inr (set_defaults [])"
  "extract_geography_hierarchy example_runtime (Some empty_workbook)
     = Inr \<lparr>global = [''India''], regions = [], countries = [], all_geographies = [''India'']\<rparr>"
  "extract_segment_hierarchy example_runtime (Some empty_workbook) = Inr []"
  "extract_data_records example_runtime (Some empty_workbook) ''Master Sheet-Value'' md geos = Inr []"
  "extract_data_records example_runtime (Some empty_workbook) ''Master Sheet-Volume'' md geos = Inr []"
  by (simp_all add: empty_workbook_def extract_metadata_def extract_geography_hierarchy_def
        extract_segment_hierarchy_def extract_data_records_def read_excel_def
        records_of_frame_def year_columns_def List.map_filter_def base_year_shares_def
        year_total_def Let_def split: option.splits)

text \<open>
  Claim C8 as stated fails for the distributor pipeline. On the example workbook the
  extraction of the Advance module raises \<^verbatim>\<open>ValueError\<close> (and the Premium sheet is
  missing), yet the run writes a document that holds the record of the Standard module
  and empty lists for the other two.
\<close>

theorem distributors_written_after_failure:
  "extract_distributors_from_sheet example_runtime (Some example_workbook) ''Module 2 - Advance''
     = Inl ValueError
   \<and> map_option data
        (written (generate_distributors_json example_runtime
                    ''Distributors Intelligence Database.xlsx'' (Some example_workbook)))
     = Some [(''Module 1 - Standard'',
              [[(''id'', JStr ''module_1_-_standard_1''), (''module'', JStr ''Module 1 - Standard''),
                (''s_no'', JInt 1), (''company_name'', JStr ''Acme Trading''),
                (''year_established'', JNull), (''headquarters_emirate'', JNull),
                (''cities_regions_covered'', JNull), (''ownership_type'', JNull),
                (''business_type'', JNull), (''no_of_employees'', JNull),
                (''key_contact_person'', JNull), (''designation_role'', JNull),
                (''email_address'', JNull), (''phone_whatsapp'', JNull),
                (''linkedin_profile'', JNull), (''website_url'', JNull)]]),
             (''Module 2 - Advance'', []),
             (''Module 3 - Premium'', [])]"
  by (simp add: generate_distributors_json_def modules_def extract_module_def
        example_module_1 example_module_2 example_module_3)

text \<open>
  The amended statement of C8 on the two example workbooks: the converter writes the
  assembled document for the empty market workbook, and writes nothing and prints one
  error for the distributor workbook, which has no Parameters sheet; the distributor run
  on that workbook writes a document with the empty list and the empty manifest for the
  Advance module.
\<close>

theorem converter_all_or_nothing_witness:
  "written (convert_main example_runtime (Some empty_workbook))
     = Some (assemble (set_defaults [])
               \<lparr>global = [''India''], regions = [], countries = [], all_geographies = [''India'']\<rparr>
               [] [] [])
   \<and> written (convert_main example_runtime (Some example_workbook)) = None
   \<and> console (convert_main example_runtime (Some example_workbook))
       = [ErrorConverting WorksheetNotFound]
   \<and> map_option (\<lambda>d. (map_of (data d) ''Module 2 - Advance'',
                         map_of (sections d) ''Module 2 - Advance''))
        (written (generate_distributors_json example_runtime
                    ''Distributors Intelligence Database.xlsx'' (Some example_workbook)))
       = Some (Some [], Some [])"
proof -
  note ok = converter_all_or_nothing [of example_runtime "Some empty_workbook" _
      "''Distributors Intelligence Database.xlsx''"]
  note ko = converter_all_or_nothing [of example_runtime "Some example_workbook" _
      "''Distributors Intelligence Database.xlsx''"]
  have 1: "written (convert_main example_runtime (Some empty_workbook))
     = Some (assemble (set_defaults [])
               \<lparr>global = [''India''], regions = [], countries = [], all_geographies = [''India'']\<rparr>
               [] [] [])"
    using ok by (simp add: empty_workbook_steps)
  have m: "extract_metadata example_runtime (Some example_workbook) = Inl WorksheetNotFound"
    by (simp add: extract_metadata_def read_excel_def example_workbook_def)
  have 2: "written (convert_main example_runtime (Some example_workbook)) = None"
    using ko [THEN conjunct1] m
    by (cases "written (convert_main example_runtime (Some example_workbook))") auto
  have 3: "console (convert_main example_runtime (Some example_workbook))
       = [ErrorConverting WorksheetNotFound]"
    by (simp add: convert_main_def convert_india_spices_to_json_def m)
  have mem: "''Module 2 - Advance'' \<in> set modules" by (simp add: modules_def)
  from ko [THEN conjunct2, THEN conjunct2] obtain d
    where d: "written (generate_distributors_json example_runtime
                    ''Distributors Intelligence Database.xlsx'' (Some example_workbook)) = Some d"
      and all: "\<forall>m \<in> set modules.
            map_of (data d) m =
              Some (case extract_distributors_from_sheet example_runtime (Some example_workbook) m of
                      Inl e \<Rightarrow> [] | Inr ds \<Rightarrow> ds) \<and>
            map_of (sections d) m =
              Some (case extract_distributors_from_sheet example_runtime (Some example_workbook) m of
                      Inl e \<Rightarrow> [] | Inr ds \<Rightarrow> get_module_sections m)"
    by blast
  from bspec [OF all mem] have "map_of (data d) ''Module 2 - Advance'' = Some []"
    and "map_of (sections d) ''Module 2 - Advance'' = Some []"
    by (simp_all add: example_module_2)
  with d 1 2 3 show ?thesis by simp
qed

end
